theory Spec2Isabelle
  imports Main
begin

section \<open>Constants, error codes and loop combinators\<close>

text \<open>
  Error tags returned through \<open>ERROR(...)\<close>. \<open>Undefined\<close> is not a tag of the library:
  it marks the places where the C code would leave its arrays, shift by too many bits,
  overflow a signed integer or dereference a null pointer.
\<close>

datatype error =
    GENERIC
  | maxSymbolValue_tooLarge
  | maxSymbolValue_tooSmall
  | tableLog_tooLarge
  | dstSize_tooSmall
  | srcSize_wrong
  | corruption_detected
  | Undefined

text \<open>
  Modelled from the spec: the macros of \<open>huf.h\<close>, which is not part of the sources at hand
  (\<open>L_max = 12\<close>, \<open>L_default = 11\<close>, \<open>symbol_max = 255\<close>, \<open>block_size_max = 128 KiB\<close>).
\<close>

abbreviation HUF_TABLELOG_MAX :: nat where "HUF_TABLELOG_MAX \<equiv> 12"
abbreviation HUF_TABLELOG_DEFAULT :: nat where "HUF_TABLELOG_DEFAULT \<equiv> 11"
abbreviation HUF_SYMBOLVALUE_MAX :: nat where "HUF_SYMBOLVALUE_MAX \<equiv> 255"
abbreviation HUF_BLOCKSIZE_MAX :: nat where "HUF_BLOCKSIZE_MAX \<equiv> 131072"
abbreviation STARTNODE :: nat where "STARTNODE \<equiv> 256"

text \<open>
  Modelled from the spec: \<open>BIT_highbit32\<close> of \<open>bitstream.h\<close>, the position of the highest
  set bit, \<open>\<lfloor>log\<^sub>2 v\<rfloor>\<close>. The C function is undefined at 0; callers check.
\<close>

fun BIT_highbit32 :: "nat \<Rightarrow> nat" where
  "BIT_highbit32 v = (if v < 2 then 0 else Suc (BIT_highbit32 (v div 2)))"

declare BIT_highbit32.simps [simp del]

text \<open>\<open>for (n = lo; n < lo + k; n++) body\<close>, stopping at the first error.\<close>

fun for_up :: "nat \<Rightarrow> nat \<Rightarrow> (nat \<Rightarrow> 's \<Rightarrow> error + 's) \<Rightarrow> 's \<Rightarrow> error + 's" where
  "for_up lo 0 body s = Inr s"
| "for_up lo (Suc k) body s =
     (case body lo s of Inl e \<Rightarrow> Inl e | Inr s' \<Rightarrow> for_up (Suc lo) k body s')"

text \<open>\<open>for (n = hi; n > hi - k; n--) body\<close>, stopping at the first error.\<close>

fun for_dn :: "nat \<Rightarrow> nat \<Rightarrow> (nat \<Rightarrow> 's \<Rightarrow> error + 's) \<Rightarrow> 's \<Rightarrow> error + 's" where
  "for_dn hi 0 body s = Inr s"
| "for_dn hi (Suc k) body s =
     (case body hi s of Inl e \<Rightarrow> Inl e | Inr s' \<Rightarrow> for_dn (hi - 1) k body s')"

section \<open>Data model\<close>

record HUF_CElt =
  val :: nat
  nbBits :: nat

type_synonym CTable = "nat \<Rightarrow> HUF_CElt"

record nodeElt =
  count :: nat
  parent :: nat
  byte :: nat
  nodeNbBits :: nat

text \<open>
  The node table is addressed through \<open>huffNode = huffNode0 + 1\<close>: index \<open>-1\<close> is the
  sentinel slot \<open>huffNode0[0]\<close>, and the 512 elements of \<open>huffNodeTable\<close> are the indices
  \<open>-1 .. 510\<close>.
\<close>

type_synonym huffNodeTable = "int \<Rightarrow> nodeElt"

definition zeroNode :: nodeElt where
  "zeroNode = \<lparr>count = 0, parent = 0, byte = 0, nodeNbBits = 0\<rparr>"

record rankPos =
  base :: nat
  current :: nat

section \<open>HUF\_sort\<close>

text \<open>\<open>BIT_highbit32(c + 1)\<close> on a 32-bit counter.\<close>

definition count_rank :: "nat \<Rightarrow> error + nat" where
  "count_rank c =
     (let v = (c + 1) mod 2 ^ 32 in if v = 0 then Inl Undefined else Inr (BIT_highbit32 v))"

text \<open>
  The insertion step of the last loop:
  \<open>while ((pos > rank[r].base) && (c > huffNode[pos-1].count)) { huffNode[pos] = huffNode[pos-1]; pos--; }\<close>
\<close>

fun sort_shift :: "nat \<Rightarrow> nat \<Rightarrow> nat \<Rightarrow> huffNodeTable \<Rightarrow> nat \<times> huffNodeTable" where
  "sort_shift b c 0 h = (0, h)"
| "sort_shift b c (Suc p) h =
     (if Suc p > b \<and> c > count (h (int p))
      then sort_shift b c p (h(int (Suc p) := h (int p)))
      else (Suc p, h))"

definition sort_insert ::
  "(nat \<Rightarrow> nat) \<Rightarrow> nat \<Rightarrow> (nat \<Rightarrow> rankPos) \<times> huffNodeTable \<Rightarrow> error + ((nat \<Rightarrow> rankPos) \<times> huffNodeTable)"
where
  "sort_insert cnt n st =
     (case st of (rank, huffNode) \<Rightarrow>
      let c = cnt n in
      case count_rank c of Inl e \<Rightarrow> Inl e | Inr r0 \<Rightarrow>
      let r = r0 + 1 in
      if r > 31 then Inl Undefined else
      let pos0 = current (rank r);
          rank' = rank(r := (rank r)\<lparr>current := pos0 + 1\<rparr>) in
      if pos0 > 510 then Inl Undefined else
      case sort_shift (base (rank r)) c pos0 huffNode of (pos, huffNode') \<Rightarrow>
      Inr (rank', huffNode'(int pos := (huffNode' (int pos))\<lparr>count := c, byte := n mod 256\<rparr>)))"

definition HUF_sort :: "huffNodeTable \<Rightarrow> (nat \<Rightarrow> nat) \<Rightarrow> nat \<Rightarrow> error + huffNodeTable" where
  "HUF_sort huffNode cnt maxSymbolValue =
     (case for_up 0 (Suc maxSymbolValue)
             (\<lambda>n rank. case count_rank (cnt n) of Inl e \<Rightarrow> Inl e
                        | Inr r \<Rightarrow> Inr (rank(r := (rank r)\<lparr>base := base (rank r) + 1\<rparr>)))
             (\<lambda>_. \<lparr>base = 0, current = 0\<rparr>) of
        Inl e \<Rightarrow> Inl e
      | Inr rank1 \<Rightarrow>
     (case for_dn 30 30
             (\<lambda>n rank. Inr (rank(n - 1 := (rank (n - 1))\<lparr>base := base (rank (n - 1)) + base (rank n)\<rparr>)))
             rank1 of
        Inl e \<Rightarrow> Inl e
      | Inr rank2 \<Rightarrow>
     (case for_up 0 (Suc maxSymbolValue) (sort_insert cnt)
             (\<lambda>n. (rank2 n)\<lparr>current := base (rank2 n)\<rparr>, huffNode) of
        Inl e \<Rightarrow> Inl e
      | Inr (rank3, huffNode') \<Rightarrow> Inr huffNode')))"

section \<open>HUF\_setMaxHeight\<close>

abbreviation noSymbol :: nat where "noSymbol \<equiv> 4042322160"

definition set_nbBits :: "huffNodeTable \<Rightarrow> nat \<Rightarrow> nat \<Rightarrow> huffNodeTable" where
  "set_nbBits h n b = h(int n := (h (int n))\<lparr>nodeNbBits := b mod 256\<rparr>)"

text \<open>
  \<open>while (huffNode[n].nbBits > maxNbBits) { totalCost += baseCost - (1 << (largestBits - huffNode[n].nbBits));
  huffNode[n].nbBits = (BYTE)maxNbBits; n--; }\<close>
  with \<open>n\<close> an unsigned index: stepping below 0 leaves the table.
\<close>

fun clamp_loop ::
  "nat \<Rightarrow> nat \<Rightarrow> huffNodeTable \<Rightarrow> int \<Rightarrow> nat \<Rightarrow> error + (huffNodeTable \<times> int \<times> nat)"
where
  "clamp_loop largestBits maxNbBits h totalCost n =
     (if n > 510 then Inl Undefined
      else if nodeNbBits (h (int n)) > maxNbBits then
        (if nodeNbBits (h (int n)) > largestBits then Inl Undefined
         else
           let totalCost' = totalCost +
                 (2 ^ (largestBits - maxNbBits) - 2 ^ (largestBits - nodeNbBits (h (int n)))) in
           if totalCost' \<ge> 2 ^ 31 then Inl Undefined
           else
             (case n of
                0 \<Rightarrow> Inl Undefined
              | Suc m \<Rightarrow> clamp_loop largestBits maxNbBits (set_nbBits h n maxNbBits) totalCost' m))
      else Inr (h, totalCost, n))"

declare clamp_loop.simps [simp del]

text \<open>\<open>while (huffNode[n].nbBits == maxNbBits) n--;\<close>\<close>

fun skip_maxbits :: "huffNodeTable \<Rightarrow> nat \<Rightarrow> nat \<Rightarrow> error + nat" where
  "skip_maxbits h maxNbBits n =
     (if n > 510 then Inl Undefined
      else if nodeNbBits (h (int n)) = maxNbBits then
        (case n of 0 \<Rightarrow> Inl Undefined | Suc m \<Rightarrow> skip_maxbits h maxNbBits m)
      else Inr n)"

declare skip_maxbits.simps [simp del]

text \<open>The position of the last (smallest) symbol of each rank; \<open>rankLast\<close> has 14 entries.\<close>

definition init_rankLast :: "huffNodeTable \<Rightarrow> nat \<Rightarrow> nat \<Rightarrow> error + (nat \<Rightarrow> nat)" where
  "init_rankLast h maxNbBits n =
     (case for_dn n (Suc n)
             (\<lambda>pos (currentNbBits, rankLast).
                if nodeNbBits (h (int pos)) \<ge> currentNbBits then Inr (currentNbBits, rankLast)
                else
                  let c = nodeNbBits (h (int pos)) in
                  if maxNbBits - c > 13 then Inl Undefined
                  else Inr (c, rankLast(maxNbBits - c := pos)))
             (maxNbBits, \<lambda>_. noSymbol) of
        Inl e \<Rightarrow> Inl e
      | Inr (c, rankLast) \<Rightarrow> Inr rankLast)"

text \<open>The inner \<open>for ( ; nBitsToDecrease > 1; nBitsToDecrease--)\<close> of the repayment loop.\<close>

fun pick_rank :: "huffNodeTable \<Rightarrow> (nat \<Rightarrow> nat) \<Rightarrow> nat \<Rightarrow> error + nat" where
  "pick_rank h rankLast nBitsToDecrease =
     (if nBitsToDecrease > 1 then
        (if nBitsToDecrease > 13 then Inl Undefined
         else
           let highPos = rankLast nBitsToDecrease;
               lowPos = rankLast (nBitsToDecrease - 1) in
           if highPos = noSymbol then pick_rank h rankLast (nBitsToDecrease - 1)
           else if lowPos = noSymbol then Inr nBitsToDecrease
           else if highPos > 510 \<or> lowPos > 510 then Inl Undefined
           else if count (h (int highPos)) \<le> (2 * count (h (int lowPos))) mod 2 ^ 32
             then Inr nBitsToDecrease
           else pick_rank h rankLast (nBitsToDecrease - 1))
      else Inr nBitsToDecrease)"

declare pick_rank.simps [simp del]

text \<open>
  \<open>while ((nBitsToDecrease<=HUF_TABLELOG_MAX) && (rankLast[nBitsToDecrease] == noSymbol)) nBitsToDecrease++;\<close>
\<close>

function next_rank :: "(nat \<Rightarrow> nat) \<Rightarrow> nat \<Rightarrow> nat" where
  "next_rank rankLast nBitsToDecrease =
     (if nBitsToDecrease \<le> HUF_TABLELOG_MAX \<and> rankLast nBitsToDecrease = noSymbol
      then next_rank rankLast (nBitsToDecrease + 1)
      else nBitsToDecrease)"
  by pat_completeness auto
termination
  by (relation "measure (\<lambda>(rankLast, d). 13 - d)") auto

declare next_rank.simps [simp del]

text \<open>One round of \<open>while (totalCost > 0)\<close> after the rank has been chosen.\<close>

definition repay_step ::
  "nat \<Rightarrow> huffNodeTable \<Rightarrow> (nat \<Rightarrow> nat) \<Rightarrow> nat \<Rightarrow> error + (huffNodeTable \<times> (nat \<Rightarrow> nat))"
where
  "repay_step maxNbBits h rankLast nBitsToDecrease =
     (let rankLast1 =
            (if rankLast (nBitsToDecrease - 1) = noSymbol
             then rankLast(nBitsToDecrease - 1 := rankLast nBitsToDecrease)
             else rankLast);
          p = rankLast1 nBitsToDecrease in
      if p > 510 then Inl Undefined
      else
        let h' = set_nbBits h p (nodeNbBits (h (int p)) + 1) in
        if p = 0 then Inr (h', rankLast1(nBitsToDecrease := noSymbol))
        else if nodeNbBits (h' (int (p - 1))) \<noteq> (maxNbBits + 2 ^ 32 - nBitsToDecrease) mod 2 ^ 32
          then Inr (h', rankLast1(nBitsToDecrease := noSymbol))
        else Inr (h', rankLast1(nBitsToDecrease := p - 1)))"

function repay ::
  "nat \<Rightarrow> huffNodeTable \<Rightarrow> (nat \<Rightarrow> nat) \<Rightarrow> int \<Rightarrow> error + (huffNodeTable \<times> (nat \<Rightarrow> nat) \<times> int)"
where
  "repay maxNbBits h rankLast totalCost =
     (if totalCost > 0 then
        (case pick_rank h rankLast (BIT_highbit32 (nat totalCost) + 1) of
           Inl e \<Rightarrow> Inl e
         | Inr d0 \<Rightarrow>
             let nBitsToDecrease = next_rank rankLast d0 in
             (case repay_step maxNbBits h rankLast nBitsToDecrease of
                Inl e \<Rightarrow> Inl e
              | Inr (h', rankLast') \<Rightarrow>
                  repay maxNbBits h' rankLast' (totalCost - 2 ^ (nBitsToDecrease - 1))))
      else Inr (h, rankLast, totalCost))"
  by pat_completeness auto
termination
  by (relation "measure (\<lambda>(maxNbBits, h, rankLast, totalCost). nat totalCost)") auto

declare repay.simps [simp del]

text \<open>\<open>while (totalCost < 0)\<close>: the correction of an overshoot.\<close>

function overshoot ::
  "nat \<Rightarrow> huffNodeTable \<Rightarrow> (nat \<Rightarrow> nat) \<Rightarrow> int \<Rightarrow> nat \<Rightarrow> error + huffNodeTable"
where
  "overshoot maxNbBits h rankLast totalCost n =
     (if totalCost < 0 then
        (if rankLast 1 = noSymbol then
           (case skip_maxbits h maxNbBits n of
              Inl e \<Rightarrow> Inl e
            | Inr n' \<Rightarrow>
                if n' + 1 > 510 then Inl Undefined
                else overshoot maxNbBits
                       (set_nbBits h (n' + 1) (nodeNbBits (h (int (n' + 1))) + 255))
                       (rankLast(1 := n' + 1)) (totalCost + 1) n')
         else
           let p = (rankLast 1 + 1) mod 2 ^ 32 in
           if p > 510 then Inl Undefined
           else overshoot maxNbBits
                  (set_nbBits h p (nodeNbBits (h (int p)) + 255))
                  (rankLast(1 := p)) (totalCost + 1) n)
      else Inr h)"
  by pat_completeness auto
termination
  by (relation "measure (\<lambda>(maxNbBits, h, rankLast, totalCost, n). nat (- totalCost))") auto

declare overshoot.simps [simp del]

definition HUF_setMaxHeight :: "huffNodeTable \<Rightarrow> nat \<Rightarrow> nat \<Rightarrow> error + (huffNodeTable \<times> nat)" where
  "HUF_setMaxHeight huffNode lastNonNull maxNbBits =
     (if lastNonNull > 510 then Inl Undefined
      else
        let largestBits = nodeNbBits (huffNode (int lastNonNull)) in
        if largestBits \<le> maxNbBits then Inr (huffNode, largestBits)
        else if largestBits - maxNbBits \<ge> 31 then Inl Undefined
        else
          (case clamp_loop largestBits maxNbBits huffNode 0 lastNonNull of
             Inl e \<Rightarrow> Inl e
           | Inr (h1, totalCost, n1) \<Rightarrow>
          (case skip_maxbits h1 maxNbBits n1 of
             Inl e \<Rightarrow> Inl e
           | Inr n \<Rightarrow>
          (case init_rankLast h1 maxNbBits n of
             Inl e \<Rightarrow> Inl e
           | Inr rankLast \<Rightarrow>
          (case repay maxNbBits h1 rankLast (totalCost div 2 ^ (largestBits - maxNbBits)) of
             Inl e \<Rightarrow> Inl e
           | Inr (h2, rankLast2, totalCost2) \<Rightarrow>
          (case overshoot maxNbBits h2 rankLast2 totalCost2 n of
             Inl e \<Rightarrow> Inl e
           | Inr h3 \<Rightarrow> Inr (h3, maxNbBits)))))))"

section \<open>HUF\_buildCTable\_wksp\<close>

text \<open>Reads and writes through \<open>huffNode\<close> stay inside the 512 elements of the table.\<close>

definition in_table :: "int \<Rightarrow> bool" where
  "in_table i \<longleftrightarrow> - 1 \<le> i \<and> i \<le> 510"

text \<open>\<open>while(huffNode[nonNullRank].count == 0) nonNullRank--;\<close> on an unsigned index.\<close>

fun find_nonNull :: "huffNodeTable \<Rightarrow> nat \<Rightarrow> error + nat" where
  "find_nonNull h 0 = (if count (h 0) = 0 then Inl Undefined else Inr 0)"
| "find_nonNull h (Suc n) =
     (if Suc n > 510 then Inl Undefined
      else if count (h (int (Suc n))) = 0 then find_nonNull h n else Inr (Suc n))"

text \<open>
  \<open>(huffNode[lowS].count < huffNode[lowN].count) ? lowS-- : lowN++\<close>, the result being
  stored in an unsigned variable that then indexes the table.
\<close>

definition pick_lowest :: "huffNodeTable \<Rightarrow> int \<Rightarrow> int \<Rightarrow> error + (int \<times> int \<times> int)" where
  "pick_lowest h lowS lowN =
     (if \<not> in_table lowS \<or> \<not> in_table lowN then Inl Undefined
      else if count (h lowS) < count (h lowN)
        then (if lowS < 0 then Inl Undefined else Inr (lowS, lowS - 1, lowN))
        else Inr (lowN, lowS, lowN + 1))"

text \<open>One round of \<open>while (nodeNb <= nodeRoot)\<close>.\<close>

definition create_parent ::
  "nat \<Rightarrow> huffNodeTable \<times> int \<times> int \<Rightarrow> error + (huffNodeTable \<times> int \<times> int)"
where
  "create_parent nodeNb st =
     (case st of (h, lowS, lowN) \<Rightarrow>
      case pick_lowest h lowS lowN of Inl e \<Rightarrow> Inl e | Inr (n1, lowS1, lowN1) \<Rightarrow>
      case pick_lowest h lowS1 lowN1 of Inl e \<Rightarrow> Inl e | Inr (n2, lowS2, lowN2) \<Rightarrow>
      if nodeNb > 510 then Inl Undefined
      else
        let h1 = h(int nodeNb := (h (int nodeNb))\<lparr>count := (count (h n1) + count (h n2)) mod 2 ^ 32\<rparr>);
            h2 = h1(n2 := (h1 n2)\<lparr>parent := nodeNb\<rparr>);
            h3 = h2(n1 := (h2 n1)\<lparr>parent := nodeNb\<rparr>)
        in Inr (h3, lowS2, lowN2))"

text \<open>\<open>huffNode[n].nbBits = huffNode[ huffNode[n].parent ].nbBits + 1;\<close>\<close>

definition set_depth :: "nat \<Rightarrow> huffNodeTable \<Rightarrow> error + huffNodeTable" where
  "set_depth n h =
     (if n > 510 \<or> parent (h (int n)) > 510 then Inl Undefined
      else Inr (set_nbBits h n (nodeNbBits (h (int (parent (h (int n))))) + 1)))"

text \<open>The result of the tree construction before the height is limited.\<close>

definition build_tree ::
  "(nat \<Rightarrow> nat) \<Rightarrow> nat \<Rightarrow> error + (huffNodeTable \<times> nat)"
where
  "build_tree cnt maxSymbolValue =
     (case HUF_sort (\<lambda>_. zeroNode) cnt maxSymbolValue of Inl e \<Rightarrow> Inl e | Inr h0 \<Rightarrow>
      case find_nonNull h0 maxSymbolValue of Inl e \<Rightarrow> Inl e | Inr nonNullRank \<Rightarrow>
      let nodeNb = STARTNODE;
          lowS = int nonNullRank;
          nodeRoot = nodeNb + nonNullRank - 1;
          lowN = int nodeNb;
          h1 = h0(int nodeNb := (h0 (int nodeNb))
                 \<lparr>count := (count (h0 lowS) + count (h0 (lowS - 1))) mod 2 ^ 32\<rparr>);
          h2 = h1(lowS - 1 := (h1 (lowS - 1))\<lparr>parent := nodeNb\<rparr>);
          h3 = h2(lowS := (h2 lowS)\<lparr>parent := nodeNb\<rparr>)
      in
      case for_up (nodeNb + 1) (nodeRoot - nodeNb)
             (\<lambda>n h. Inr (h(int n := (h (int n))\<lparr>count := 2 ^ 30\<rparr>))) h3 of
        Inl e \<Rightarrow> Inl e | Inr h4 \<Rightarrow>
      let h5 = h4(- 1 := (h4 (- 1))\<lparr>count := 2 ^ 31\<rparr>) in
      case for_up (nodeNb + 1) (nodeRoot - nodeNb) create_parent (h5, lowS - 2, lowN) of
        Inl e \<Rightarrow> Inl e | Inr (h6, lowS', lowN') \<Rightarrow>
      let h7 = set_nbBits h6 nodeRoot 0 in
      case for_dn (nodeRoot - 1) (nodeRoot - STARTNODE) (\<lambda>n h. set_depth n h) h7 of
        Inl e \<Rightarrow> Inl e | Inr h8 \<Rightarrow>
      case for_up 0 (Suc nonNullRank) (\<lambda>n h. set_depth n h) h8 of
        Inl e \<Rightarrow> Inl e | Inr h9 \<Rightarrow> Inr (h9, nonNullRank))"

text \<open>The starting value of each rank: \<open>for (n=maxNbBits; n>0; n--) { valPerRank[n] = min; min += nbPerRank[n]; min >>= 1; }\<close>\<close>

definition rank_values :: "nat \<Rightarrow> (nat \<Rightarrow> nat) \<Rightarrow> (nat \<Rightarrow> nat) \<Rightarrow> error + ((nat \<Rightarrow> nat) \<times> nat)" where
  "rank_values maxNbBits nbPerRank valPerRank =
     for_dn maxNbBits maxNbBits
       (\<lambda>n (valPerRank, minv). Inr (valPerRank(n := minv), ((minv + nbPerRank n) mod 2 ^ 16) div 2))
       (valPerRank, 0)"

text \<open>\<open>for (n=0; n<=maxSymbolValue; n++) tree[n].val = valPerRank[tree[n].nbBits]++;\<close>\<close>

definition assign_values :: "nat \<Rightarrow> nat \<Rightarrow> CTable \<Rightarrow> (nat \<Rightarrow> nat) \<Rightarrow> error + (CTable \<times> (nat \<Rightarrow> nat))" where
  "assign_values limit nbSymbols tree valPerRank =
     for_up 0 nbSymbols
       (\<lambda>n (tree, valPerRank).
          let b = nbBits (tree n) in
          if b > limit then Inl Undefined
          else Inr (tree(n := (tree n)\<lparr>val := valPerRank b\<rparr>),
                    valPerRank(b := (valPerRank b + 1) mod 2 ^ 16)))
       (tree, valPerRank)"

definition sizeof_huffNodeTable :: nat where
  "sizeof_huffNodeTable = 512 * 8"

definition HUF_buildCTable_wksp ::
  "CTable \<Rightarrow> (nat \<Rightarrow> nat) \<Rightarrow> nat \<Rightarrow> nat \<Rightarrow> nat \<Rightarrow> error + (CTable \<times> nat)"
where
  "HUF_buildCTable_wksp tree cnt maxSymbolValue maxNbBits0 wkspSize =
     (if wkspSize < sizeof_huffNodeTable then Inl GENERIC
      else
        let maxNbBits1 = (if maxNbBits0 = 0 then HUF_TABLELOG_DEFAULT else maxNbBits0) in
        if maxSymbolValue > HUF_SYMBOLVALUE_MAX then Inl GENERIC
        else
          case build_tree cnt maxSymbolValue of Inl e \<Rightarrow> Inl e | Inr (h, nonNullRank) \<Rightarrow>
          case HUF_setMaxHeight h nonNullRank maxNbBits1 of Inl e \<Rightarrow> Inl e | Inr (huffNode, maxNbBits) \<Rightarrow>
          if maxNbBits > HUF_TABLELOG_MAX then Inl GENERIC
          else
            case for_up 0 (Suc nonNullRank)
                   (\<lambda>n nbPerRank.
                      let b = nodeNbBits (huffNode (int n)) in
                      if b > HUF_TABLELOG_MAX then Inl Undefined
                      else Inr (nbPerRank(b := (nbPerRank b + 1) mod 2 ^ 16)))
                   (\<lambda>_. 0) of
              Inl e \<Rightarrow> Inl e | Inr nbPerRank \<Rightarrow>
            case rank_values maxNbBits nbPerRank (\<lambda>_. 0) of
              Inl e \<Rightarrow> Inl e | Inr (valPerRank, minv) \<Rightarrow>
            case for_up 0 (Suc maxSymbolValue)
                   (\<lambda>n tree. Inr (tree(byte (huffNode (int n)) :=
                                   (tree (byte (huffNode (int n))))\<lparr>nbBits := nodeNbBits (huffNode (int n))\<rparr>)))
                   tree of
              Inl e \<Rightarrow> Inl e | Inr tree1 \<Rightarrow>
            case assign_values HUF_TABLELOG_MAX (Suc maxSymbolValue) tree1 valPerRank of
              Inl e \<Rightarrow> Inl e | Inr (tree2, valPerRank') \<Rightarrow> Inr (tree2, maxNbBits))"

text \<open>\<open>HUF_buildCTable\<close> supplies a node table of its own.\<close>

definition HUF_buildCTable :: "CTable \<Rightarrow> (nat \<Rightarrow> nat) \<Rightarrow> nat \<Rightarrow> nat \<Rightarrow> error + (CTable \<times> nat)" where
  "HUF_buildCTable tree cnt maxSymbolValue maxNbBits =
     HUF_buildCTable_wksp tree cnt maxSymbolValue maxNbBits sizeof_huffNodeTable"

section \<open>External collaborators\<close>

text \<open>
  The FSE coder and the bitstream writer are not part of the sources at hand; they are
  parameters of the model. A stream writer gets the capacity of its destination, the
  source bytes and the code table, and returns the bytes it wrote (none when it gives up
  and returns 0).
\<close>

record externals =
  FSE_optimalTableLog_internal :: "nat \<Rightarrow> nat \<Rightarrow> nat \<Rightarrow> nat \<Rightarrow> nat"
  FSE_weights_header :: "nat \<Rightarrow> nat list \<Rightarrow> error + nat list"
  FSE_weights_payload :: "nat \<Rightarrow> nat list \<Rightarrow> error + nat list"
  FSE_decompress_wksp :: "nat \<Rightarrow> nat list \<Rightarrow> error + nat list"
  HUF_compress1X_usingCTable_internal_default :: "nat \<Rightarrow> nat list \<Rightarrow> CTable \<Rightarrow> error + nat list"
  HUF_compress4X_usingCTable_internal_default :: "nat \<Rightarrow> nat list \<Rightarrow> CTable \<Rightarrow> error + nat list"

definition HUF_optimalTableLog :: "externals \<Rightarrow> nat \<Rightarrow> nat \<Rightarrow> nat \<Rightarrow> nat" where
  "HUF_optimalTableLog ext maxTableLog srcSize maxSymbolValue =
     FSE_optimalTableLog_internal ext maxTableLog srcSize maxSymbolValue 1"

text \<open>
  Modelled from the spec: the external histogram (\<open>FSE_count_wksp\<close>, \<open>FSE_count_simple\<close>),
  which fills \<open>count[]\<close> with the occurrences of each byte value, lowers the maximum symbol
  value to the largest byte value that occurs, and returns the largest count.
\<close>

definition FSE_count_wksp :: "nat \<Rightarrow> nat list \<Rightarrow> error + ((nat \<Rightarrow> nat) \<times> nat \<times> nat)" where
  "FSE_count_wksp maxSymbolValue src =
     Inr (count_list src, fold max src 0, fold max (map (count_list src) src) 0)"

section \<open>HUF\_compressWeights and HUF\_writeCTable\<close>

text \<open>
  The result is the returned size together with the bytes written: 0 and 1 are the
  "not compressible" and "single symbol" answers, which write nothing.
\<close>

definition HUF_compressWeights :: "externals \<Rightarrow> nat \<Rightarrow> nat list \<Rightarrow> error + (nat \<times> nat list)" where
  "HUF_compressWeights ext dstSize weightTable =
     (let wtSize = length weightTable in
      if wtSize \<le> 1 then Inr (0, [])
      else
        case FSE_count_wksp HUF_TABLELOG_MAX weightTable of Inl e \<Rightarrow> Inl e
        | Inr (cnt, maxSymbolValue, maxCount) \<Rightarrow>
        if maxCount = wtSize then Inr (1, [])
        else if maxCount = 1 then Inr (0, [])
        else
          case FSE_weights_header ext dstSize weightTable of Inl e \<Rightarrow> Inl e | Inr hdr \<Rightarrow>
          case FSE_weights_payload ext (dstSize - length hdr) weightTable of Inl e \<Rightarrow> Inl e
          | Inr payload \<Rightarrow>
          if length payload = 0 then Inr (0, [])
          else Inr (length hdr + length payload, hdr @ payload))"

text \<open>
  \<open>bitsToWeight\<close> has 13 entries, of which \<open>0 .. huffLog\<close> are initialised.
\<close>

definition bitsToWeight :: "nat \<Rightarrow> nat \<Rightarrow> error + nat" where
  "bitsToWeight huffLog n =
     (if n = 0 then Inr 0
      else if n > HUF_TABLELOG_MAX \<or> n > huffLog then Inl Undefined
      else Inr ((huffLog + 1 - n) mod 256))"

text \<open>\<open>for (n=0; n<maxSymbolValue; n++) huffWeight[n] = bitsToWeight[CTable[n].nbBits];\<close>\<close>

definition convert_weights :: "CTable \<Rightarrow> nat \<Rightarrow> nat \<Rightarrow> error + nat list" where
  "convert_weights CTable maxSymbolValue huffLog =
     for_up 0 maxSymbolValue
       (\<lambda>n huffWeight. case bitsToWeight huffLog (nbBits (CTable n)) of
                           Inl e \<Rightarrow> Inl e | Inr w \<Rightarrow> Inr (huffWeight @ [w]))
       []"

text \<open>Two weights per byte, \<open>huffWeight[maxSymbolValue]\<close> being 0.\<close>

definition pack_weights :: "nat list \<Rightarrow> nat list" where
  "pack_weights huffWeight =
     map (\<lambda>i. ((huffWeight ! (2 * i)) * 16 +
                (if 2 * i + 1 < length huffWeight then huffWeight ! (2 * i + 1) else 0)) mod 256)
         [0 ..< (length huffWeight + 1) div 2]"

definition HUF_writeCTable :: "externals \<Rightarrow> nat \<Rightarrow> CTable \<Rightarrow> nat \<Rightarrow> nat \<Rightarrow> error + nat list" where
  "HUF_writeCTable ext maxDstSize CTable maxSymbolValue huffLog =
     (if maxSymbolValue > HUF_SYMBOLVALUE_MAX then Inl maxSymbolValue_tooLarge
      else if huffLog > HUF_TABLELOG_MAX then Inl Undefined
      else
        case convert_weights CTable maxSymbolValue huffLog of Inl e \<Rightarrow> Inl e | Inr huffWeight \<Rightarrow>
        case HUF_compressWeights ext ((maxDstSize + 2 ^ 64 - 1) mod 2 ^ 64) huffWeight of
          Inl e \<Rightarrow> Inl e
        | Inr (hSize, payload) \<Rightarrow>
        if hSize > 1 \<and> hSize < maxSymbolValue div 2 then Inr (hSize mod 256 # payload)
        else if maxSymbolValue > 256 - 128 then Inl GENERIC
        else if (maxSymbolValue + 1) div 2 + 1 > maxDstSize then Inl dstSize_tooSmall
        else Inr (((128 + (maxSymbolValue + 2 ^ 32 - 1)) mod 2 ^ 32) mod 256 # pack_weights huffWeight))"

section \<open>HUF\_compress\_internal\<close>

datatype HUF_repeat = HUF_repeat_none | HUF_repeat_check | HUF_repeat_valid

definition zeroCElt :: HUF_CElt where
  "zeroCElt = \<lparr>val = 0, nbBits = 0\<rparr>"

definition HUF_estimateCompressedSize :: "CTable \<Rightarrow> (nat \<Rightarrow> nat) \<Rightarrow> nat \<Rightarrow> nat" where
  "HUF_estimateCompressedSize CTable cnt maxSymbolValue =
     ((\<Sum>s \<leftarrow> [0 ..< Suc maxSymbolValue]. (nbBits (CTable s) * cnt s) mod 2 ^ 32) mod 2 ^ 64) div 2 ^ 3"

definition HUF_validateCTable :: "CTable \<Rightarrow> (nat \<Rightarrow> nat) \<Rightarrow> nat \<Rightarrow> bool" where
  "HUF_validateCTable CTable cnt maxSymbolValue \<longleftrightarrow>
     \<not> (\<exists>s \<in> set [0 ..< Suc maxSymbolValue]. cnt s \<noteq> 0 \<and> nbBits (CTable s) = 0)"

text \<open>
  The state a call can reach through its pointers: the bytes written at the start of
  \<open>dst\<close>, the persisted table and the repeat flag (either pointer may be null).
\<close>

record outcome =
  ret :: "error + nat"
  dst :: "nat list"
  oldHufTable :: "CTable option"
  repeat :: "HUF_repeat option"

text \<open>
  \<open>written\<close> are the bytes between \<open>ostart\<close> and \<open>op\<close>. The table and the flag are passed
  through untouched.
\<close>

definition HUF_compressCTable_internal ::
  "externals \<Rightarrow> nat list \<Rightarrow> nat \<Rightarrow> nat list \<Rightarrow> bool \<Rightarrow> CTable \<Rightarrow> (error + nat) \<times> nat list"
where
  "HUF_compressCTable_internal ext written dstSize src singleStream CTable =
     (case (if singleStream then HUF_compress1X_usingCTable_internal_default ext
            else HUF_compress4X_usingCTable_internal_default ext)
             (dstSize - length written) src CTable of
        Inl e \<Rightarrow> (Inl e, written)
      | Inr out \<Rightarrow>
          if length out = 0 then (Inr 0, written)
          else if length written + length out \<ge> (length src + 2 ^ 64 - 1) mod 2 ^ 64
            then (Inr 0, written @ out)
          else (Inr (length written + length out), written @ out))"

definition countSize :: nat where "countSize = 4 * (HUF_SYMBOLVALUE_MAX + 1)"
definition CTableSize :: nat where "CTableSize = 4 * (HUF_SYMBOLVALUE_MAX + 1)"

text \<open>Encoding with the persisted table; a null table pointer cannot be read.\<close>

definition use_old_table ::
  "externals \<Rightarrow> nat \<Rightarrow> nat list \<Rightarrow> bool \<Rightarrow> CTable option \<Rightarrow> HUF_repeat option \<Rightarrow> outcome"
where
  "use_old_table ext dstSize src singleStream old rep =
     (case old of
        None \<Rightarrow> \<lparr>ret = Inl Undefined, dst = [], oldHufTable = old, repeat = rep\<rparr>
      | Some t \<Rightarrow>
          (case HUF_compressCTable_internal ext [] dstSize src singleStream t of
             (r, d) \<Rightarrow> \<lparr>ret = r, dst = d, oldHufTable = old, repeat = rep\<rparr>))"

text \<open>\<open>repeat && *repeat != HUF_repeat_none\<close>\<close>

definition repeat_set :: "HUF_repeat option \<Rightarrow> bool" where
  "repeat_set rep \<longleftrightarrow> rep \<noteq> None \<and> rep \<noteq> Some HUF_repeat_none"

text \<open>The end of the non-reuse path, from \<open>/* Use the new table */\<close> on.\<close>

definition use_new_table ::
  "externals \<Rightarrow> nat \<Rightarrow> nat list \<Rightarrow> bool \<Rightarrow> CTable \<Rightarrow> nat list \<Rightarrow>
   CTable option \<Rightarrow> HUF_repeat option \<Rightarrow> outcome"
where
  "use_new_table ext dstSize src singleStream CTable header old rep =
     (if length header + 12 \<ge> length src
      then \<lparr>ret = Inr 0, dst = header, oldHufTable = old, repeat = rep\<rparr>
      else
        let rep2 = (if rep = None then None else Some HUF_repeat_none);
            old2 = (if old = None then None else Some CTable) in
        case HUF_compressCTable_internal ext header dstSize src singleStream CTable of
          (r, d) \<Rightarrow> \<lparr>ret = r, dst = d, oldHufTable = old2, repeat = rep2\<rparr>)"

text \<open>
  \<open>oldSize <= hSize + newSize || hSize + 12 >= srcSize\<close>, the test that sends a block to
  the persisted table after the new header has been written.
\<close>

definition prefers_old_table :: "CTable \<Rightarrow> CTable \<Rightarrow> (nat \<Rightarrow> nat) \<Rightarrow> nat \<Rightarrow> nat \<Rightarrow> nat \<Rightarrow> bool" where
  "prefers_old_table oldT CTable cnt maxSymbolValue hSize srcSize \<longleftrightarrow>
     HUF_estimateCompressedSize oldT cnt maxSymbolValue
       \<le> hSize + HUF_estimateCompressedSize CTable cnt maxSymbolValue
     \<or> hSize + 12 \<ge> srcSize"

text \<open>\<open>/* Check validity of previous table */\<close>: the repeat flag after the check.\<close>

definition check_old_table ::
  "CTable option \<Rightarrow> HUF_repeat option \<Rightarrow> (nat \<Rightarrow> nat) \<Rightarrow> nat \<Rightarrow> error + HUF_repeat option"
where
  "check_old_table old rep cnt maxSymbolValue =
     (if rep = Some HUF_repeat_check
      then (case old of
              None \<Rightarrow> Inl Undefined
            | Some t \<Rightarrow> Inr (if \<not> HUF_validateCTable t cnt maxSymbolValue
                              then Some HUF_repeat_none else rep))
      else Inr rep)"

text \<open>The non-reuse path, from \<open>/* Build Huffman Tree */\<close> on.\<close>

definition build_and_compress ::
  "externals \<Rightarrow> nat \<Rightarrow> nat list \<Rightarrow> bool \<Rightarrow> CTable \<Rightarrow> nat \<Rightarrow> (nat \<Rightarrow> nat) \<Rightarrow> nat \<Rightarrow> nat \<Rightarrow>
   CTable option \<Rightarrow> HUF_repeat option \<Rightarrow> outcome"
where
  "build_and_compress ext dstSize src singleStream wkspTable wkspSize cnt maxSymbolValue huffLog1
       old rep1 =
     (let huffLog2 = HUF_optimalTableLog ext huffLog1 (length src) maxSymbolValue in
      case HUF_buildCTable_wksp wkspTable cnt maxSymbolValue huffLog2 wkspSize of
        Inl e \<Rightarrow> \<lparr>ret = Inl e, dst = [], oldHufTable = old, repeat = rep1\<rparr>
      | Inr (tree, maxBits) \<Rightarrow>
      let huffLog = maxBits mod 2 ^ 32;
          CTable = (\<lambda>s. if s > maxSymbolValue then zeroCElt else tree s) in
      case HUF_writeCTable ext dstSize CTable maxSymbolValue huffLog of
        Inl e \<Rightarrow> \<lparr>ret = Inl e, dst = [], oldHufTable = old, repeat = rep1\<rparr>
      | Inr header \<Rightarrow>
      if repeat_set rep1
      then
        (case old of
           None \<Rightarrow> \<lparr>ret = Inl Undefined, dst = header, oldHufTable = old, repeat = rep1\<rparr>
         | Some t \<Rightarrow>
             if prefers_old_table t CTable cnt maxSymbolValue (length header) (length src)
             then use_old_table ext dstSize src singleStream old rep1
             else use_new_table ext dstSize src singleStream CTable header old rep1)
      else use_new_table ext dstSize src singleStream CTable header old rep1)"

definition HUF_compress_internal ::
  "externals \<Rightarrow> nat \<Rightarrow> nat list \<Rightarrow> nat \<Rightarrow> nat \<Rightarrow> bool \<Rightarrow> CTable \<Rightarrow> nat \<Rightarrow>
   CTable option \<Rightarrow> HUF_repeat option \<Rightarrow> bool \<Rightarrow> outcome"
where
  "HUF_compress_internal ext dstSize src maxSymbolValue0 huffLog0 singleStream wkspTable wkspSize
       old rep preferRepeat =
     (let srcSize = length src;
          unchanged = (\<lambda>r d. \<lparr>ret = r, dst = d, oldHufTable = old, repeat = rep\<rparr>) in
      if wkspSize < sizeof_huffNodeTable + countSize + CTableSize then unchanged (Inl GENERIC) []
      else if srcSize = 0 then unchanged (Inr 0) []
      else if dstSize = 0 then unchanged (Inr 0) []
      else if srcSize > HUF_BLOCKSIZE_MAX then unchanged (Inl srcSize_wrong) []
      else if huffLog0 > HUF_TABLELOG_MAX then unchanged (Inl tableLog_tooLarge) []
      else
        let maxSymbolValue1 = (if maxSymbolValue0 = 0 then HUF_SYMBOLVALUE_MAX else maxSymbolValue0);
            huffLog1 = (if huffLog0 = 0 then HUF_TABLELOG_DEFAULT else huffLog0) in
        if preferRepeat \<and> rep = Some HUF_repeat_valid
        then use_old_table ext dstSize src singleStream old rep
        else
          case FSE_count_wksp maxSymbolValue1 src of
            Inl e \<Rightarrow> unchanged (Inl e) []
          | Inr (cnt, maxSymbolValue, largest) \<Rightarrow>
          if largest = srcSize then unchanged (Inr 1) [src ! 0]
          else if largest \<le> srcSize div 2 ^ 7 + 1 then unchanged (Inr 0) []
          else
            case check_old_table old rep cnt maxSymbolValue of
              Inl e \<Rightarrow> unchanged (Inl e) []
            | Inr rep1 \<Rightarrow>
            if preferRepeat \<and> repeat_set rep1
            then use_old_table ext dstSize src singleStream old rep1
            else build_and_compress ext dstSize src singleStream wkspTable
                   (wkspSize - countSize - CTableSize) cnt maxSymbolValue huffLog1 old rep1)"

text \<open>
  An instance of the external collaborators on which the model can be run: the table-log
  heuristic keeps the requested value, the FSE coder answers every weight vector with the
  given payload (the empty payload declines), and the stream writer is the one given.
\<close>

definition simple_externals ::
  "nat list \<Rightarrow> (nat \<Rightarrow> nat list \<Rightarrow> CTable \<Rightarrow> error + nat list) \<Rightarrow> externals"
where
  "simple_externals payload writer =
     \<lparr>FSE_optimalTableLog_internal = (\<lambda>maxTableLog srcSize maxSymbolValue minus. maxTableLog),
      FSE_weights_header = (\<lambda>dstSize weights. Inr []),
      FSE_weights_payload = (\<lambda>dstSize weights. Inr payload),
      FSE_decompress_wksp = (\<lambda>dstSize bytes. Inl corruption_detected),
      HUF_compress1X_usingCTable_internal_default = writer,
      HUF_compress4X_usingCTable_internal_default = writer\<rparr>"

text \<open>A stream writer that emits the code lengths of the byte values 0 and 1.\<close>

definition lengths_writer :: "nat \<Rightarrow> nat list \<Rightarrow> CTable \<Rightarrow> error + nat list" where
  "lengths_writer dstSize src CTable = Inr [nbBits (CTable 0), nbBits (CTable 1)]"

text \<open>A stream writer that always gives up (returns 0).\<close>

definition null_writer :: "nat \<Rightarrow> nat list \<Rightarrow> CTable \<Rightarrow> error + nat list" where
  "null_writer dstSize src CTable = Inr []"

text \<open>Count vectors and code tables given by the list of their first entries.\<close>

definition cnt_of :: "nat list \<Rightarrow> nat \<Rightarrow> nat" where
  "cnt_of xs s = (if s < length xs then xs ! s else 0)"

definition table_of :: "(nat \<times> nat) list \<Rightarrow> CTable" where
  "table_of xs s = (if s < length xs then \<lparr>val = snd (xs ! s), nbBits = fst (xs ! s)\<rparr> else zeroCElt)"

text \<open>The cost estimate in the words of the specification: the bit cost itself.\<close>

definition spec_cost :: "CTable \<Rightarrow> (nat \<Rightarrow> nat) \<Rightarrow> nat \<Rightarrow> nat" where
  "spec_cost T cnt maxSymbolValue = (\<Sum>s \<leftarrow> [0 ..< Suc maxSymbolValue]. nbBits (T s) * cnt s)"

definition spec_prefers_old_table :: "CTable \<Rightarrow> CTable \<Rightarrow> (nat \<Rightarrow> nat) \<Rightarrow> nat \<Rightarrow> nat \<Rightarrow> nat \<Rightarrow> bool" where
  "spec_prefers_old_table oldT CTable cnt maxSymbolValue hSize srcSize \<longleftrightarrow>
     spec_cost oldT cnt maxSymbolValue \<le> hSize + spec_cost CTable cnt maxSymbolValue
     \<or> hSize + 12 \<ge> srcSize"

text \<open>A block of 13 bytes 0 and 3 bytes 1.\<close>

definition src16 :: "nat list" where
  "src16 = [0, 0, 0, 0, 0, 0, 0, 0, 0, 0, 0, 0, 0, 1, 1, 1]"

text \<open>A persisted table that gives one bit to the byte 0 and two bits to the byte 1.\<close>

definition old16 :: CTable where
  "old16 = table_of [(1, 0), (2, 2)]"

text \<open>A table of nine symbols, two of two bits and seven of three bits.\<close>

definition table9 :: CTable where
  "table9 = table_of [(2, 0), (2, 0), (3, 0), (3, 0), (3, 0), (3, 0), (3, 0), (3, 0), (3, 0)]"

(*DEFS_END*)

section \<open>Evaluation equations\<close>

text \<open>The loops unfolded on numerals, for running the model on concrete inputs.\<close>

lemma for_up_unfold:
  "for_up lo k body s =
     (if k = 0 then Inr s
      else case body lo s of Inl e \<Rightarrow> Inl e | Inr s' \<Rightarrow> for_up (lo + 1) (k - 1) body s')"
  by (cases k) (auto split: sum.splits)

lemma for_dn_unfold:
  "for_dn hi k body s =
     (if k = 0 then Inr s
      else case body hi s of Inl e \<Rightarrow> Inl e | Inr s' \<Rightarrow> for_dn (hi - 1) (k - 1) body s')"
  by (cases k) (auto split: sum.splits)

lemma sort_shift_unfold:
  "sort_shift b c p h =
     (if p = 0 then (0, h)
      else if p > b \<and> c > count (h (int (p - 1)))
        then sort_shift b c (p - 1) (h(int p := h (int (p - 1))))
      else (p, h))"
  by (cases p) auto

lemma find_nonNull_unfold:
  "find_nonNull h n =
     (if n = 0 then (if count (h 0) = 0 then Inl Undefined else Inr 0)
      else if n > 510 then Inl Undefined
      else if count (h (int n)) = 0 then find_nonNull h (n - 1)
      else Inr n)"
  by (cases n) auto

lemmas run_build =
  HUF_buildCTable_def HUF_buildCTable_wksp_def build_tree_def HUF_sort_def sort_insert_def
  count_rank_def BIT_highbit32.simps HUF_setMaxHeight_def clamp_loop.simps skip_maxbits.simps
  init_rankLast_def pick_rank.simps next_rank.simps repay_step_def repay.simps overshoot.simps
  set_nbBits_def in_table_def pick_lowest_def create_parent_def set_depth_def rank_values_def
  assign_values_def sizeof_huffNodeTable_def zeroNode_def cnt_of_def Let_def
  for_up_unfold for_dn_unfold sort_shift_unfold find_nonNull_unfold

lemmas run_compress =
  HUF_compress_internal_def build_and_compress_def use_old_table_def use_new_table_def prefers_old_table_def
  check_old_table_def HUF_validateCTable_def HUF_estimateCompressedSize_def repeat_set_def
  HUF_compressCTable_internal_def HUF_writeCTable_def pack_weights_def convert_weights_def
  bitsToWeight_def HUF_compressWeights_def FSE_count_wksp_def HUF_optimalTableLog_def
  simple_externals_def lengths_writer_def null_writer_def table_of_def zeroCElt_def
  countSize_def CTableSize_def upt_rec

lemmas structural_eqs = for_up.simps for_dn.simps sort_shift.simps find_nonNull.simps

lemma workspace_size: "sizeof_huffNodeTable + countSize + CTableSize = 6144"
  by (simp add: sizeof_huffNodeTable_def countSize_def CTableSize_def)

section \<open>The block compressor: early returns\<close>

text \<open>
  C10. With an empty destination and a non-empty source (and a workspace that is large
  enough), \<open>HUF_compress_internal\<close> returns the sentinel 0 and not an error code; the test
  comes before the size and table-log checks, the histogram and the table construction,
  and nothing is written or changed.
\<close>

theorem empty_dst_returns_zero:
  assumes "wkspSize \<ge> sizeof_huffNodeTable + countSize + CTableSize" and "src \<noteq> []"
  shows "HUF_compress_internal ext 0 src maxSymbolValue huffLog singleStream wkspTable wkspSize
           old rep preferRepeat
         = \<lparr>ret = Inr 0, dst = [], oldHufTable = old, repeat = rep\<rparr>"
  using assms by (simp add: HUF_compress_internal_def Let_def)

theorem empty_dst_returns_zero_witness:
  "HUF_compress_internal (simple_externals [] lengths_writer) 0 [65, 66, 65] 255 13 True
     (\<lambda>_. zeroCElt) 6144 None None False
   = \<lparr>ret = Inr 0, dst = [], oldHufTable = None, repeat = None\<rparr>"
proof -
  have a: "(6144::nat) \<ge> sizeof_huffNodeTable + countSize + CTableSize"
    by (simp add: workspace_size)
  have b: "[65, 66, 65::nat] \<noteq> []" by simp
  show ?thesis using empty_dst_returns_zero [OF a b] by simp
qed

text \<open>
  C7, as the specification states it, fails: a requested table log above 12 is not clamped.
  Here a 16-byte block with \<open>huffLog = 13\<close> is refused with \<open>tableLog_tooLarge\<close>.
\<close>

theorem huffLog_13_is_refused:
  "ret (HUF_compress_internal (simple_externals [] lengths_writer) 64 src16 255 13 True
          (\<lambda>_. zeroCElt) 6144 None None False)
   = Inl tableLog_tooLarge"
  by (simp add: HUF_compress_internal_def Let_def workspace_size src16_def)

text \<open>
  C7, amended. For every call with a requested table log above \<open>HUF_TABLELOG_MAX = 12\<close>
  and otherwise valid inputs (workspace large enough, source not empty and not above the
  block size limit, destination not empty), \<open>HUF_compress_internal\<close> fails with
  \<open>tableLog_tooLarge\<close>, writes nothing and leaves the persisted table and the repeat flag
  alone.
\<close>

theorem huffLog_tooLarge_is_an_error:
  assumes "wkspSize \<ge> sizeof_huffNodeTable + countSize + CTableSize"
    and "src \<noteq> []" and "dstSize > 0" and "length src \<le> HUF_BLOCKSIZE_MAX"
    and "huffLog > HUF_TABLELOG_MAX"
  shows "HUF_compress_internal ext dstSize src maxSymbolValue huffLog singleStream wkspTable
           wkspSize old rep preferRepeat
         = \<lparr>ret = Inl tableLog_tooLarge, dst = [], oldHufTable = old, repeat = rep\<rparr>"
  using assms by (simp add: HUF_compress_internal_def Let_def)

theorem huffLog_tooLarge_is_an_error_witness:
  "HUF_compress_internal (simple_externals [] null_writer) 8 [1, 2, 3] 255 200 False
     (\<lambda>_. zeroCElt) 6144 None (Some HUF_repeat_check) True
   = \<lparr>ret = Inl tableLog_tooLarge, dst = [], oldHufTable = None, repeat = Some HUF_repeat_check\<rparr>"
proof -
  have a: "(6144::nat) \<ge> sizeof_huffNodeTable + countSize + CTableSize"
    by (simp add: workspace_size)
  show ?thesis
    using huffLog_tooLarge_is_an_error [OF a, of "[1, 2, 3]" 8 200] by simp
qed

text \<open>The histogram of a run of one byte value.\<close>

lemma fold_max_const:
  "\<forall>x \<in> set xs. x = (c::nat) \<Longrightarrow> xs \<noteq> [] \<Longrightarrow> a \<le> c \<Longrightarrow> fold max xs a = c"
proof (induction xs arbitrary: a)
  case Nil
  then show ?case by simp
next
  case (Cons x xs)
  show ?case
  proof (cases "xs = []")
    case True
    with Cons.prems show ?thesis by (simp add: max_def)
  next
    case False
    with Cons.prems Cons.IH [of "max x a"] show ?thesis by (simp add: max_def)
  qed
qed

lemma count_list_const: "\<forall>x \<in> set xs. x = b \<Longrightarrow> count_list xs b = length xs"
  by (induction xs) auto

lemma largest_of_run:
  assumes "src \<noteq> []" and "\<forall>b \<in> set src. b = hd src"
  shows "fold max (map (count_list src) src) 0 = length src"
proof -
  have "\<forall>x \<in> set (map (count_list src) src). x = length src"
    using assms count_list_const [of src "hd src"] by auto
  then show ?thesis using assms(1) by (intro fold_max_const) auto
qed

text \<open>
  C8, as the specification states it, fails: four identical bytes and an empty destination
  give the sentinel 0 and no output byte.
\<close>

theorem run_with_empty_dst_returns_zero:
  "HUF_compress_internal (simple_externals [] lengths_writer) 0 [65, 65, 65, 65] 255 11 True
     (\<lambda>_. zeroCElt) 6144 None None False
   = \<lparr>ret = Inr 0, dst = [], oldHufTable = None, repeat = None\<rparr>"
  by (simp add: HUF_compress_internal_def Let_def workspace_size)

text \<open>
  C8, amended. For every non-empty input whose bytes are all identical, when the call gets
  as far as the histogram (workspace large enough, destination not empty, source within the
  block size limit, table log at most 12, and not the prefer-repeat shortcut on a table
  marked valid), \<open>HUF_compress_internal\<close> returns 1 and writes exactly one byte, the
  repeated input byte; the persisted table and the repeat flag are unchanged.
\<close>

theorem run_is_rle:
  assumes "wkspSize \<ge> sizeof_huffNodeTable + countSize + CTableSize"
    and "src \<noteq> []" and "dstSize > 0" and "length src \<le> HUF_BLOCKSIZE_MAX"
    and "huffLog \<le> HUF_TABLELOG_MAX"
    and "\<not> (preferRepeat \<and> rep = Some HUF_repeat_valid)"
    and "\<forall>b \<in> set src. b = hd src"
  shows "HUF_compress_internal ext dstSize src maxSymbolValue huffLog singleStream wkspTable
           wkspSize old rep preferRepeat
         = \<lparr>ret = Inr 1, dst = [hd src], oldHufTable = old, repeat = rep\<rparr>"
  using assms largest_of_run [of src]
  by (auto simp add: HUF_compress_internal_def Let_def FSE_count_wksp_def hd_conv_nth)

theorem run_is_rle_witness:
  "HUF_compress_internal (simple_externals [] lengths_writer) 64 [65, 65, 65, 65] 255 11 True
     (\<lambda>_. zeroCElt) 6144 None None False
   = \<lparr>ret = Inr 1, dst = [65], oldHufTable = None, repeat = None\<rparr>"
proof -
  have a: "(6144::nat) \<ge> sizeof_huffNodeTable + countSize + CTableSize"
    by (simp add: workspace_size)
  show ?thesis
    using run_is_rle [OF a, of "[65, 65, 65, 65]" 64 11 False None
        "simple_externals [] lengths_writer" 255 True "\<lambda>_. zeroCElt" None]
    by simp
qed

section \<open>The table header\<close>

lemma compressWeights_length:
  "HUF_compressWeights ext cap ws = Inr (h, payload) \<Longrightarrow> h > 1 \<Longrightarrow> length payload = h"
  by (auto simp: HUF_compressWeights_def Let_def split: if_splits sum.splits prod.splits)

text \<open>The block compressor never writes the table of a single byte value: such a block is a run.\<close>

lemma fold_max_ge: "x \<in> set xs \<Longrightarrow> x \<le> fold max xs (a::nat)"
proof (induction xs arbitrary: a)
  case Nil
  then show ?case by simp
next
  case (Cons y ys)
  have mono: "a \<le> fold max ys a" for a :: nat and ys
    by (induction ys arbitrary: a) (auto intro: le_trans [OF max.cobounded2])
  show ?case
  proof (cases "x = y")
    case True
    then show ?thesis using mono [of "max y a" ys] by simp
  next
    case False
    with Cons show ?thesis by simp
  qed
qed

lemma table_has_two_symbols:
  fixes src :: "nat list"
  assumes "src \<noteq> []" and "fold max (map (count_list src) src) 0 \<noteq> length src"
  shows "1 \<le> fold max src 0"
proof (rule ccontr)
  assume "\<not> 1 \<le> fold max src 0"
  then have "\<forall>b \<in> set src. b = 0" using fold_max_ge [of _ src 0] by fastforce
  then have "\<forall>b \<in> set src. b = hd src" using assms(1) by (cases src) auto
  with largest_of_run [OF assms(1)] assms(2) show False by simp
qed

text \<open>
  C5. Once the weights are converted and \<open>HUF_compressWeights\<close> has returned a size
  \<open>h\<close>, \<open>HUF_writeCTable\<close> takes the FSE-compressed encoding exactly when
  \<open>1 < h < maxSymbolValue / 2\<close> (integer division): it then emits the byte \<open>h\<close> followed by the
  \<open>h\<close> payload bytes, and \<open>h \<le> 127\<close>. Otherwise, for the tables the block compressor
  writes (\<open>1 \<le> maxSymbolValue\<close>), whatever it emits is the raw-packed form, whose first byte
  \<open>128 + (maxSymbolValue - 1)\<close> lies in \<open>[128, 255]\<close>; so the two first bytes never collide.
\<close>

theorem writeCTable_encoding_choice:
  assumes "maxSymbolValue \<le> HUF_SYMBOLVALUE_MAX" and "huffLog \<le> HUF_TABLELOG_MAX"
    and "convert_weights CTable maxSymbolValue huffLog = Inr huffWeight"
    and "HUF_compressWeights ext ((maxDstSize + 2 ^ 64 - 1) mod 2 ^ 64) huffWeight = Inr (h, payload)"
  shows "(1 < h \<and> h < maxSymbolValue div 2 \<longrightarrow>
            HUF_writeCTable ext maxDstSize CTable maxSymbolValue huffLog = Inr (h # payload)
            \<and> length payload = h \<and> h \<le> 127)
       \<and> (\<not> (1 < h \<and> h < maxSymbolValue div 2) \<longrightarrow> 1 \<le> maxSymbolValue \<longrightarrow>
            (\<forall>out. HUF_writeCTable ext maxDstSize CTable maxSymbolValue huffLog = Inr out \<longrightarrow>
               out = (128 + (maxSymbolValue - 1)) # pack_weights huffWeight
               \<and> 128 \<le> hd out \<and> hd out \<le> 255))"
proof (intro conjI impI allI)
  assume h: "1 < h \<and> h < maxSymbolValue div 2"
  then have "h < 128" using assms(1) by linarith
  then show "HUF_writeCTable ext maxDstSize CTable maxSymbolValue huffLog = Inr (h # payload)"
    using assms h by (simp add: HUF_writeCTable_def)
  show "length payload = h" using compressWeights_length [OF assms(4)] h by simp
  show "h \<le> 127" using \<open>h < 128\<close> by simp
next
  fix out
  assume nh: "\<not> (1 < h \<and> h < maxSymbolValue div 2)" and m: "1 \<le> maxSymbolValue"
    and w: "HUF_writeCTable ext maxDstSize CTable maxSymbolValue huffLog = Inr out"
  from w nh assms have m128: "maxSymbolValue \<le> 128"
    by (auto simp: HUF_writeCTable_def split: if_splits)
  have "(128 + (maxSymbolValue + 2 ^ 32 - 1)) mod 2 ^ 32 = 128 + (maxSymbolValue - 1)"
    using m m128 by (simp add: mod_if)
     
  then have hdr: "((128 + (maxSymbolValue + 2 ^ 32 - 1)) mod 2 ^ 32) mod 256 = 128 + (maxSymbolValue - 1)"
    using m m128 by simp
  have "HUF_writeCTable ext maxDstSize CTable maxSymbolValue huffLog =
          (if (maxSymbolValue + 1) div 2 + 1 > maxDstSize then Inl dstSize_tooSmall
           else Inr (((128 + (maxSymbolValue + 2 ^ 32 - 1)) mod 2 ^ 32) mod 256 # pack_weights huffWeight))"
    using assms nh m128 by (auto simp add: HUF_writeCTable_def)
  with w show "out = (128 + (maxSymbolValue - 1)) # pack_weights huffWeight"
    unfolding hdr by (simp split: if_splits)
  then show "128 \<le> hd out" "hd out \<le> 255" using m m128 by auto
qed

theorem writeCTable_encoding_choice_witness:
  "HUF_writeCTable (simple_externals [6, 7, 8] null_writer) 64 table9 8 3 = Inr [3, 6, 7, 8]
   \<and> HUF_writeCTable (simple_externals [] null_writer) 64 (table_of [(1, 0), (1, 1)]) 1 1
         = Inr [128, 16]"
proof -
  let ?e = "simple_externals [6, 7, 8] null_writer"
  let ?n = "simple_externals [] null_writer"
  have a: "(8::nat) \<le> HUF_SYMBOLVALUE_MAX" "(3::nat) \<le> HUF_TABLELOG_MAX" by simp_all
  have b: "convert_weights table9 8 3 = Inr [2, 2, 1, 1, 1, 1, 1, 1]"
    by (simp add: run_compress run_build table9_def del: structural_eqs)
  have c: "HUF_compressWeights ?e ((64 + 2 ^ 64 - 1) mod 2 ^ 64) [2, 2, 1, 1, 1, 1, 1, 1]
             = Inr (3, [6, 7, 8])"
    by (simp add: run_compress run_build del: structural_eqs)
  have fse: "HUF_writeCTable ?e 64 table9 8 3 = Inr [3, 6, 7, 8]"
    using writeCTable_encoding_choice [OF a b c] by simp
  have a': "(1::nat) \<le> HUF_SYMBOLVALUE_MAX" "(1::nat) \<le> HUF_TABLELOG_MAX" by simp_all
  have b': "convert_weights (table_of [(1, 0), (1, 1)]) 1 1 = Inr [1]"
    by (simp add: run_compress run_build del: structural_eqs)
  have c': "HUF_compressWeights ?n ((64 + 2 ^ 64 - 1) mod 2 ^ 64) [1] = Inr (0, [])"
    by (simp add: HUF_compressWeights_def)
  have raw: "\<forall>out. HUF_writeCTable ?n 64 (table_of [(1, 0), (1, 1)]) 1 1 = Inr out \<longrightarrow> out = [128, 16]"
    using writeCTable_encoding_choice [OF a' b' c'] by (simp add: pack_weights_def)
  have "\<exists>out. HUF_writeCTable ?n 64 (table_of [(1, 0), (1, 1)]) 1 1 = Inr out"
    using b' c' by (simp add: HUF_writeCTable_def)
  with fse raw show ?thesis by auto
qed

section \<open>The block compressor: reuse of the persisted table\<close>

lemma sum_list_mod_bound:
  "(\<And>x. x \<in> set xs \<Longrightarrow> f x < b) \<Longrightarrow> (\<Sum>x\<leftarrow>xs. f x) \<le> length xs * (b::nat)"
  by (induction xs) (auto simp: add_mono less_imp_le)

lemma estimate_eq:
  assumes "maxSymbolValue \<le> HUF_SYMBOLVALUE_MAX"
    and "\<forall>s \<le> maxSymbolValue. nbBits (T s) < 256"
    and "\<forall>s \<le> maxSymbolValue. cnt s < 2 ^ 24"
  shows "HUF_estimateCompressedSize T cnt maxSymbolValue = spec_cost T cnt maxSymbolValue div 8"
proof -
  have b: "nbBits (T s) * cnt s < 2 ^ 32" if "s \<le> maxSymbolValue" for s
  proof -
    have "nbBits (T s) * cnt s < 256 * 2 ^ 24"
      using assms(2,3) that by (intro mult_strict_mono) auto
    then show ?thesis by simp
  qed
  then have eq: "(\<Sum>s \<leftarrow> [0 ..< Suc maxSymbolValue]. (nbBits (T s) * cnt s) mod 2 ^ 32)
            = (\<Sum>s \<leftarrow> [0 ..< Suc maxSymbolValue]. nbBits (T s) * cnt s)"
    by (intro arg_cong[where f=sum_list] map_cong) auto
  have "(\<Sum>s \<leftarrow> [0 ..< Suc maxSymbolValue]. nbBits (T s) * cnt s) \<le> length [0 ..< Suc maxSymbolValue] * 2 ^ 32"
    using b by (intro sum_list_mod_bound) auto
  also have "\<dots> \<le> 256 * 2 ^ 32" using assms(1) by simp
  also have "\<dots> < (2::nat) ^ 64" by simp
  finally have lt: "(\<Sum>s \<leftarrow> [0 ..< Suc maxSymbolValue]. nbBits (T s) * cnt s) < 2 ^ 64" .
  show ?thesis
    unfolding HUF_estimateCompressedSize_def spec_cost_def eq mod_less [OF lt] by simp
qed

lemma count_list_le_length: "count_list xs x \<le> length xs"
  by (induction xs) auto

lemma build_maxSymbolValue:
  "HUF_buildCTable_wksp tree cnt maxSymbolValue maxNbBits wkspSize = Inr r \<Longrightarrow> maxSymbolValue \<le> HUF_SYMBOLVALUE_MAX"
  by (auto simp: HUF_buildCTable_wksp_def Let_def split: if_splits)

text \<open>
  C6, as the specification states it, fails: the estimates that are compared are byte
  counts, not bit costs. For the block \<open>src16\<close> and the persisted table \<open>old16\<close> the new
  header is \<open>[128, 16]\<close> (2 bytes), the bit costs are 19 (old) and 16 (new), so that
  \<open>19 \<le> 2 + 16\<close> and \<open>2 + 12 \<ge> 16\<close> are both false, and yet the block is encoded with the
  persisted table (the writer reports the code lengths 1 and 2 of \<open>old16\<close>).
\<close>

theorem old_table_used_against_bit_costs:
  "HUF_compress_internal (simple_externals [] lengths_writer) 64 src16 0 0 True (\<lambda>_. zeroCElt) 6144
      (Some old16) (Some HUF_repeat_check) False
    = use_old_table (simple_externals [] lengths_writer) 64 src16 True (Some old16) (Some HUF_repeat_check)
   \<and> dst (HUF_compress_internal (simple_externals [] lengths_writer) 64 src16 0 0 True
           (\<lambda>_. zeroCElt) 6144 (Some old16) (Some HUF_repeat_check) False) = [1, 2]
   \<and> HUF_writeCTable (simple_externals [] lengths_writer) 64
        (fst (projr (HUF_buildCTable_wksp (\<lambda>_. zeroCElt) (count_list src16) 1 11 4096))) 1 1
      = Inr [128, 16]
   \<and> \<not> spec_prefers_old_table old16
         (fst (projr (HUF_buildCTable_wksp (\<lambda>_. zeroCElt) (count_list src16) 1 11 4096)))
         (count_list src16) 1 2 16"
  by (simp add: run_compress run_build src16_def old16_def spec_prefers_old_table_def
        spec_cost_def del: structural_eqs)

text \<open>
  C6, amended. When a persisted table exists and its repeat state is not \<open>None\<close> after the
  validity check (and the call has got as far as writing the new header without taking
  the prefer-repeat path), the estimate of each table is its bit cost in whole bytes,
  \<open>(\<Sum>s. T[s].nbBits \<cdot> count[s]) >> 3\<close> (for code lengths that fit a byte), and the block is
  encoded with the persisted table, without the new header, exactly when
  \<open>est_old \<le> hSize + est_new\<close> or \<open>hSize + 12 \<ge> srcSize\<close>; otherwise the new table is used.
\<close>

theorem reuse_cost_check:
  fixes src :: "nat list"
  defines "cnt \<equiv> count_list src"
    and "maxSymbolValue \<equiv> fold max src 0"
    and "largest \<equiv> fold max (map (count_list src) src) 0"
  assumes wk: "wkspSize \<ge> sizeof_huffNodeTable + countSize + CTableSize"
    and valid_args: "src \<noteq> []" "dstSize > 0" "length src \<le> HUF_BLOCKSIZE_MAX"
      "huffLog0 \<le> HUF_TABLELOG_MAX"
    and compressible: "largest \<noteq> length src" "\<not> largest \<le> length src div 2 ^ 7 + 1"
    and old: "old = Some oldT" "check_old_table old rep cnt maxSymbolValue = Inr rep1"
      "repeat_set rep1"
    and no_prefer: "\<not> preferRepeat"
    and build: "HUF_buildCTable_wksp wkspTable cnt maxSymbolValue
                  (HUF_optimalTableLog ext (if huffLog0 = 0 then HUF_TABLELOG_DEFAULT else huffLog0)
                     (length src) maxSymbolValue)
                  (wkspSize - countSize - CTableSize) = Inr (tree, maxBits)"
    and CTable: "CTable = (\<lambda>s. if s > maxSymbolValue then zeroCElt else tree s)"
    and header: "HUF_writeCTable ext dstSize CTable maxSymbolValue (maxBits mod 2 ^ 32) = Inr header"
  shows "HUF_compress_internal ext dstSize src maxSymbolValue0 huffLog0 singleStream wkspTable wkspSize
           old rep preferRepeat
         = (if HUF_estimateCompressedSize oldT cnt maxSymbolValue
                 \<le> length header + HUF_estimateCompressedSize CTable cnt maxSymbolValue
               \<or> length header + 12 \<ge> length src
            then use_old_table ext dstSize src singleStream old rep1
            else use_new_table ext dstSize src singleStream CTable header old rep1)
       \<and> (\<forall>T. (\<forall>s \<le> maxSymbolValue. nbBits (T s) < 256) \<longrightarrow>
              HUF_estimateCompressedSize T cnt maxSymbolValue = spec_cost T cnt maxSymbolValue div 8)"
proof
  show "HUF_compress_internal ext dstSize src maxSymbolValue0 huffLog0 singleStream wkspTable wkspSize
           old rep preferRepeat
         = (if HUF_estimateCompressedSize oldT cnt maxSymbolValue
                 \<le> length header + HUF_estimateCompressedSize CTable cnt maxSymbolValue
               \<or> length header + 12 \<ge> length src
            then use_old_table ext dstSize src singleStream old rep1
            else use_new_table ext dstSize src singleStream CTable header old rep1)"
    using wk valid_args compressible old no_prefer build header
    unfolding cnt_def maxSymbolValue_def largest_def CTable
    by (simp add: HUF_compress_internal_def build_and_compress_def Let_def FSE_count_wksp_def prefers_old_table_def)
next
  have m: "maxSymbolValue \<le> HUF_SYMBOLVALUE_MAX" using build_maxSymbolValue [OF build] .
  have c: "\<forall>s \<le> maxSymbolValue. cnt s < 2 ^ 24"
  proof (intro allI impI)
    fix s
    have "cnt s \<le> length src" unfolding cnt_def by (rule count_list_le_length)
    also have "\<dots> < 2 ^ 24" using valid_args(3) by simp
    finally show "cnt s < 2 ^ 24" .
  qed
  show "\<forall>T. (\<forall>s \<le> maxSymbolValue. nbBits (T s) < 256) \<longrightarrow>
              HUF_estimateCompressedSize T cnt maxSymbolValue = spec_cost T cnt maxSymbolValue div 8"
    using estimate_eq [OF m _ c] by blast
qed

text \<open>The table built for \<open>src16\<close>: one bit for each of the two byte values.\<close>

lemma build_src16:
  "HUF_buildCTable_wksp (\<lambda>_. zeroCElt) (count_list src16) 1 11 4096
     = Inr (fst (projr (HUF_buildCTable_wksp (\<lambda>_. zeroCElt) (count_list src16) 1 11 4096)), 1)"
  by (simp add: run_build src16_def zeroCElt_def del: structural_eqs)

lemma build_src16_nbBits:
  "nbBits (fst (projr (HUF_buildCTable_wksp (\<lambda>_. zeroCElt) (count_list src16) 1 11 4096)) 0) = 1
   \<and> nbBits (fst (projr (HUF_buildCTable_wksp (\<lambda>_. zeroCElt) (count_list src16) 1 11 4096)) 1) = 1"
  by (simp add: run_build src16_def zeroCElt_def del: structural_eqs)

theorem reuse_cost_check_witness:
  "HUF_compress_internal (simple_externals [] lengths_writer) 64 src16 0 0 True (\<lambda>_. zeroCElt) 6144
      (Some (table_of [(3, 0), (7, 0)])) (Some HUF_repeat_valid) False
    = use_new_table (simple_externals [] lengths_writer) 64 src16 True
        (\<lambda>s. if s > 1 then zeroCElt else fst (projr (HUF_buildCTable_wksp (\<lambda>_. zeroCElt) (count_list src16) 1 11 4096)) s)
        [128, 16] (Some (table_of [(3, 0), (7, 0)])) (Some HUF_repeat_valid)"
proof -
  let ?e = "simple_externals [] lengths_writer"
  let ?b = "HUF_buildCTable_wksp (\<lambda>_. zeroCElt) (count_list src16) 1 11 4096"
  let ?T = "\<lambda>s. if s > 1 then zeroCElt else fst (projr ?b) s"
  let ?old = "table_of [(3, 0), (7, 0)]"
  have m: "fold max src16 0 = 1" by (simp add: src16_def)
  have wk: "(6144::nat) \<ge> sizeof_huffNodeTable + countSize + CTableSize"
    by (simp add: workspace_size)
  have args: "src16 \<noteq> []" "(64::nat) > 0" "length src16 \<le> HUF_BLOCKSIZE_MAX" "(0::nat) \<le> HUF_TABLELOG_MAX"
    by (simp_all add: src16_def)
  have l: "fold max (map (count_list src16) src16) 0 \<noteq> length src16"
     "\<not> fold max (map (count_list src16) src16) 0 \<le> length src16 div 2 ^ 7 + 1"
    by (simp_all add: src16_def)
  have chk: "check_old_table (Some ?old) (Some HUF_repeat_valid) (count_list src16) (fold max src16 0) = Inr (Some HUF_repeat_valid)"
    "repeat_set (Some HUF_repeat_valid)"
    by (simp_all add: check_old_table_def repeat_set_def)
  have build: "HUF_buildCTable_wksp (\<lambda>_. zeroCElt) (count_list src16) (fold max src16 0)
                  (HUF_optimalTableLog ?e (if (0::nat) = 0 then HUF_TABLELOG_DEFAULT else 0)
                     (length src16) (fold max src16 0))
                  (6144 - countSize - CTableSize) = Inr (fst (projr ?b), 1)"
    unfolding m using build_src16 by (simp add: HUF_optimalTableLog_def simple_externals_def countSize_def CTableSize_def)
  have T: "?T = (\<lambda>s. if s > fold max src16 0 then zeroCElt else fst (projr ?b) s)"
    unfolding m ..
  have hdr: "HUF_writeCTable ?e 64 ?T (fold max src16 0) (1 mod 2 ^ 32) = Inr [128, 16]"
    unfolding m using build_src16_nbBits
    by (simp add: HUF_writeCTable_def pack_weights_def convert_weights_def
        bitsToWeight_def HUF_compressWeights_def for_up_unfold upt_rec del: structural_eqs)
  have cnt: "count_list src16 0 = 13" "count_list src16 1 = 3" by (simp_all add: src16_def)
  have est: "\<not> (HUF_estimateCompressedSize ?old (count_list src16) (fold max src16 0)
                 \<le> length [128, 16::nat] + HUF_estimateCompressedSize ?T (count_list src16) (fold max src16 0)
               \<or> length [128, 16::nat] + 12 \<ge> length src16)"
    unfolding m using build_src16_nbBits
    by (simp add: HUF_estimateCompressedSize_def cnt table_of_def upt_rec) (simp add: src16_def)
  from reuse_cost_check [OF wk args l refl chk _ build T hdr, of False 0 True]
  show ?thesis using est by simp
qed

section \<open>The block compressor: the persisted state\<close>

lemma use_old_table_state [simp]:
  "oldHufTable (use_old_table ext dstSize src singleStream old rep) = old"
  "repeat (use_old_table ext dstSize src singleStream old rep) = rep"
  by (auto simp: use_old_table_def split: option.splits prod.splits)







end
